theory Spec2Isabelle
  imports Main "HOL-Library.Word"
begin

unbundle bit_operations_syntax

section \<open>Python values used by the two services\<close>

text \<open>
  A Python \<open>str\<close> is a sequence of Unicode code points, so it is modelled as a list of
  code points (natural numbers), not as a list of 8-bit characters. \<open>ascii\<close> turns an
  ASCII literal into such a string. A \<open>bytes\<close> object is a list of octets.
\<close>

type_synonym pystr = "nat list"
type_synonym bytes = "8 word list"

definition ascii :: "string \<Rightarrow> pystr" where
  "ascii s = map of_char s"

text \<open>The exceptions that the modelled code raises or lets through.\<close>

datatype py_error =
    ValueError pystr
  | RequestException
  | KeyError
  | IndexError
  | TypeError
  | AttributeError

section \<open>Library functions used by \<open>file_handler.py\<close>\<close>

subsection \<open>\<open>os.path.splitext\<close> and \<open>os.path.join\<close> (posixpath)\<close>

text \<open>\<open>str.rfind\<close> for a single character: the highest index, or \<open>-1\<close>.\<close>

fun rfind :: "nat \<Rightarrow> pystr \<Rightarrow> int" where
  "rfind c [] = -1"
| "rfind c (x # xs) =
     (let r = rfind c xs in if 0 \<le> r then r + 1 else if x = c then 0 else -1)"

definition SEP :: nat where "SEP = 47"
definition EXTSEP :: nat where "EXTSEP = 46"

text \<open>
  The loop of \<open>genericpath._splitext\<close> that skips leading dots of the last path
  component: \<open>True\<close> when a character other than the dot is found before \<open>dotIndex\<close>
  (the function then returns the split), \<open>False\<close> when the loop runs out.
\<close>

function splitext_scan :: "pystr \<Rightarrow> nat \<Rightarrow> nat \<Rightarrow> bool" where
  "splitext_scan p filenameIndex dotIndex =
     (if filenameIndex < dotIndex then
        (if take 1 (drop filenameIndex p) \<noteq> [EXTSEP] then True
         else splitext_scan p (filenameIndex + 1) dotIndex)
      else False)"
  by pat_completeness auto
termination
  by (relation "measure (\<lambda>(p, i, d). d - i)") auto

declare splitext_scan.simps [simp del]

definition splitext :: "pystr \<Rightarrow> pystr \<times> pystr" where
  "splitext p =
     (let sepIndex = rfind SEP p;
          dotIndex = rfind EXTSEP p
      in if dotIndex > sepIndex \<and> splitext_scan p (nat (sepIndex + 1)) (nat dotIndex)
         then (take (nat dotIndex) p, drop (nat dotIndex) p)
         else (p, []))"

text \<open>\<open>posixpath.join\<close> with one component appended.\<close>

definition path_join :: "pystr \<Rightarrow> pystr \<Rightarrow> pystr" where
  "path_join a b =
     (if take 1 b = [SEP] then b
      else if a = [] \<or> drop (length a - 1) a = [SEP] then a @ b
      else a @ [SEP] @ b)"

subsection \<open>\<open>uuid.uuid4\<close> and its string form\<close>

text \<open>
  \<open>uuid4()\<close> is \<open>UUID(bytes=os.urandom(16), version=4)\<close>: the sixteen random octets are
  read as a big-endian integer, the variant bits are set to RFC 4122 and the version
  nibble to 4. The sixteen octets are modelled as a 128-bit word.
\<close>

definition uuid4_int :: "128 word \<Rightarrow> int" where
  "uuid4_int r =
     (let i0 = uint r;
          i1 = i0 AND NOT (push_bit 48 0xc000);
          i2 = i1 OR push_bit 48 0x8000;
          i3 = i2 AND NOT (push_bit 64 0xf000);
          i4 = i3 OR push_bit 76 4
      in i4)"

definition hexdigit :: "nat \<Rightarrow> nat" where
  "hexdigit d = (if d < 10 then 48 + d else 87 + d)"

function hex_of :: "nat \<Rightarrow> pystr" where
  "hex_of n = (if n < 16 then [hexdigit n] else hex_of (n div 16) @ [hexdigit (n mod 16)])"
  by pat_completeness auto
termination
  by (relation "measure id") auto

declare hex_of.simps [simp del]

text \<open>The format \<open>'%032x' % i\<close>: lower-case hexadecimal, zero-padded to width 32.\<close>

definition format_032x :: "int \<Rightarrow> pystr" where
  "format_032x i =
     (let sign = (if i < 0 then [45] else []);
          h = hex_of (nat \<bar>i\<bar>)
      in sign @ replicate (32 - length sign - length h) 48 @ h)"

text \<open>\<open>UUID.__str__\<close>: the 32 digits grouped 8-4-4-4-12.\<close>

definition uuid_str :: "int \<Rightarrow> pystr" where
  "uuid_str i =
     (let hex = format_032x i
      in take 8 hex @ [45] @ take 4 (drop 8 hex) @ [45] @ take 4 (drop 12 hex) @ [45]
         @ take 4 (drop 16 hex) @ [45] @ drop 20 hex)"

section \<open>\<open>app/services/file_handler.py\<close>\<close>

text \<open>
  An upload candidate is werkzeug's \<open>FileStorage\<close>: the client-supplied file name and a
  seekable stream, which is its content and the current read position.
\<close>

record file_storage =
  filename :: pystr
  stream_data :: bytes
  stream_pos :: nat

definition stream_read :: "nat \<Rightarrow> file_storage \<Rightarrow> bytes \<times> file_storage" where
  "stream_read n f =
     (let chunk = take n (drop (stream_pos f) (stream_data f))
      in (chunk, f\<lparr>stream_pos := stream_pos f + length chunk\<rparr>))"

definition stream_seek :: "nat \<Rightarrow> file_storage \<Rightarrow> file_storage" where
  "stream_seek n f = f\<lparr>stream_pos := n\<rparr>"

text \<open>
  The world that \<open>save_pictures\<close> changes: the files written so far (the path and the
  octets of every write, oldest first) and the number of draws taken from the operating
  system's random source.
\<close>

record world =
  written :: "(pystr \<times> bytes) list"
  draws :: nat

text \<open>\<open>FileStorage.save(dst)\<close> copies the stream from its current position to \<open>dst\<close>.\<close>

definition fs_save :: "file_storage \<Rightarrow> pystr \<Rightarrow> world \<Rightarrow> world" where
  "fs_save f dst w = w\<lparr>written := written w @ [(dst, drop (stream_pos f) (stream_data f))]\<rparr>"

text \<open>\<open>uuid.uuid4()\<close> against a random source \<open>urandom\<close> (its k-th draw of 16 octets).\<close>

definition uuid4 :: "(nat \<Rightarrow> 128 word) \<Rightarrow> world \<Rightarrow> int \<times> world" where
  "uuid4 urandom w = (uuid4_int (urandom (draws w)), w\<lparr>draws := draws w + 1\<rparr>)"

definition allowed_mimes :: "pystr list" where
  "allowed_mimes = [ascii ''image/jpeg'', ascii ''image/png'', ascii ''image/gif'']"

definition invalid_type_message :: "pystr \<Rightarrow> pystr" where
  "invalid_type_message detected_mime =
     ascii ''Tipe file tidak valid: terdeteksi '' @ detected_mime
     @ ascii ''. Hanya gambar yang diizinkan.''"

text \<open>
  The environment of a call: the configured \<open>UPLOAD_FOLDER\<close>, libmagic's classifier
  \<open>magic.Magic(mime=True).from_buffer\<close> (a parameter: its signature database is not part
  of the repository) and the random source.
\<close>

record upload_env =
  upload_folder :: pystr
  from_buffer :: "bytes \<Rightarrow> pystr"
  urandom :: "nat \<Rightarrow> 128 word"

text \<open>
  The body of \<open>save_pictures\<close>: the \<open>for\<close> loop over the candidates, with the list
  \<open>saved_filenames\<close> and the world threaded through. The \<open>raise\<close> leaves the loop with
  the world as it is at that moment. A write is taken to succeed: a failure of the file
  system (disk full, permission denied) is outside this model.
\<close>

fun save_loop ::
  "upload_env \<Rightarrow> file_storage list \<Rightarrow> pystr list \<Rightarrow> world \<Rightarrow> (py_error + pystr list) \<times> world"
where
  "save_loop env [] saved_filenames w = (Inr saved_filenames, w)"
| "save_loop env (picture # rest) saved_filenames w =
     (let (file_head, p1) = stream_read 2048 picture;
          p2 = stream_seek 0 p1;
          detected_mime = from_buffer env file_head
      in if detected_mime \<notin> set allowed_mimes
         then (Inl (ValueError (invalid_type_message detected_mime)), w)
         else
           (let f_ext = snd (splitext (filename p2));
                (u, w1) = uuid4 (urandom env) w;
                picture_fn = uuid_str u @ f_ext;
                picture_path = path_join (upload_folder env) picture_fn;
                w2 = fs_save p2 picture_path w1
            in save_loop env rest (saved_filenames @ [picture_fn]) w2))"

definition save_pictures ::
  "upload_env \<Rightarrow> file_storage list \<Rightarrow> world \<Rightarrow> (py_error + pystr list) \<times> world"
where
  "save_pictures env form_pictures w = save_loop env form_pictures [] w"

text \<open>
  The naming pattern of the interface description,
  \<^verbatim>\<open>^[0-9a-f-]{36}\.(jpg|jpeg|png|gif)$\<close>, as a predicate on file names: 36 characters
  from the class, a dot, and one of the four extensions, with \<open>$\<close> read as the end of the
  name.
\<close>

definition uuid_chars :: "nat list" where
  "uuid_chars = ascii ''0123456789abcdef-''"

definition pattern_exts :: "pystr list" where
  "pattern_exts = [ascii ''.jpg'', ascii ''.jpeg'', ascii ''.png'', ascii ''.gif'']"

definition matches_name_pattern :: "pystr \<Rightarrow> bool" where
  "matches_name_pattern s =
     (length (take 36 s) = 36 \<and> list_all (\<lambda>c. c \<in> set uuid_chars) (take 36 s)
      \<and> drop 36 s \<in> set pattern_exts)"

text \<open>
  What one candidate contributes: the type libmagic detects on the first 2048 octets read
  from the stream, the name under which the candidate is stored when the k-th random draw
  is used for it, and the file that is written.
\<close>

definition detected :: "upload_env \<Rightarrow> file_storage \<Rightarrow> pystr" where
  "detected env p = from_buffer env (fst (stream_read 2048 p))"

definition accepted :: "upload_env \<Rightarrow> file_storage \<Rightarrow> bool" where
  "accepted env p = (detected env p \<in> set allowed_mimes)"

definition stored_name :: "upload_env \<Rightarrow> nat \<Rightarrow> file_storage \<Rightarrow> pystr" where
  "stored_name env k p = uuid_str (uuid4_int (urandom env k)) @ snd (splitext (filename p))"

fun stored_names :: "upload_env \<Rightarrow> nat \<Rightarrow> file_storage list \<Rightarrow> pystr list" where
  "stored_names env k [] = []"
| "stored_names env k (p # ps) = stored_name env k p # stored_names env (Suc k) ps"

fun stored_files :: "upload_env \<Rightarrow> nat \<Rightarrow> file_storage list \<Rightarrow> (pystr \<times> bytes) list" where
  "stored_files env k [] = []"
| "stored_files env k (p # ps) =
     (path_join (upload_folder env) (stored_name env k p), stream_data p)
     # stored_files env (Suc k) ps"

text \<open>
  The last path component of a file name has a character other than the dot (so that
  \<open>splitext\<close> does not take the whole name for a dot file).
\<close>

definition has_stem :: "pystr \<Rightarrow> bool" where
  "has_stem s = list_ex (\<lambda>c. c \<noteq> EXTSEP) (drop (nat (rfind SEP s + 1)) s)"

subsection \<open>Concrete instances\<close>

text \<open>
  A small classifier by leading signature (JPEG, PNG, GIF, anything else is plain text), a
  random source whose every draw is sixteen zero octets, and an empty world, for concrete
  runs. \<open>zero_uuid\<close> is the identifier that \<open>uuid4\<close> makes of such a draw.
\<close>

definition example_magic :: "bytes \<Rightarrow> pystr" where
  "example_magic b =
     (if take 3 b = [0xFF, 0xD8, 0xFF] then ascii ''image/jpeg''
      else if take 4 b = [0x89, 0x50, 0x4E, 0x47] then ascii ''image/png''
      else if take 4 b = [0x47, 0x49, 0x46, 0x38] then ascii ''image/gif''
      else ascii ''text/plain'')"

definition example_env :: upload_env where
  "example_env =
     \<lparr>upload_folder = ascii ''/srv/uploads'', from_buffer = example_magic,
      urandom = (\<lambda>k. 0)\<rparr>"

definition world0 :: world where
  "world0 = \<lparr>written = [], draws = 0\<rparr>"

definition jpeg_bytes :: bytes where
  "jpeg_bytes = [0xFF, 0xD8, 0xFF, 0xE0]"

definition text_bytes :: bytes where
  "text_bytes = [0x68, 0x69]"

definition upload :: "string \<Rightarrow> bytes \<Rightarrow> file_storage" where
  "upload name content = \<lparr>filename = ascii name, stream_data = content, stream_pos = 0\<rparr>"

definition zero_uuid :: pystr where
  "zero_uuid = ascii ''00000000-0000-4000-8000-000000000000''"

section \<open>\<open>app/services/chatbot_handler.py\<close>\<close>

subsection \<open>JSON values and the Python operations applied to them\<close>

text \<open>
  The value \<open>resp.json()\<close> returns. An object is the list of its items (a parsed
  \<open>dict\<close>, looked up by \<open>map_of\<close>); of a number the code observes only whether it is
  zero. Python's \<open>None\<close> is \<open>JNull\<close>.
\<close>

datatype json =
    JNull
  | JBool bool
  | JNum int
  | JStr pystr
  | JArr "json list"
  | JObj "(pystr \<times> json) list"

definition and_then :: "'e + 'a \<Rightarrow> ('a \<Rightarrow> 'e + 'b) \<Rightarrow> 'e + 'b" where
  "and_then r f = (case r of Inl e \<Rightarrow> Inl e | Inr v \<Rightarrow> f v)"

text \<open>\<open>x.get(key, default)\<close>: only a \<open>dict\<close> has the method.\<close>

definition dict_get :: "json \<Rightarrow> pystr \<Rightarrow> json \<Rightarrow> py_error + json" where
  "dict_get x key dflt =
     (case x of
        JObj items \<Rightarrow> (case map_of items key of Some v \<Rightarrow> Inr v | None \<Rightarrow> Inr dflt)
      | _ \<Rightarrow> Inl AttributeError)"

text \<open>\<open>x[key]\<close> for a string key.\<close>

definition getitem_key :: "json \<Rightarrow> pystr \<Rightarrow> py_error + json" where
  "getitem_key x key =
     (case x of
        JObj items \<Rightarrow> (case map_of items key of Some v \<Rightarrow> Inr v | None \<Rightarrow> Inl KeyError)
      | _ \<Rightarrow> Inl TypeError)"

text \<open>
  \<open>x[0]\<close>: the first element of a list or the first character of a string
  (\<open>IndexError\<close> when empty); on a \<open>dict\<close> the key \<open>0\<close> is looked up, which no parsed
  JSON object has.
\<close>

definition getitem_0 :: "json \<Rightarrow> py_error + json" where
  "getitem_0 x =
     (case x of
        JArr xs \<Rightarrow> (case xs of [] \<Rightarrow> Inl IndexError | v # _ \<Rightarrow> Inr v)
      | JStr s \<Rightarrow> (case s of [] \<Rightarrow> Inl IndexError | c # _ \<Rightarrow> Inr (JStr [c]))
      | JObj items \<Rightarrow> Inl KeyError
      | _ \<Rightarrow> Inl TypeError)"

text \<open>Truth value of an object, as \<open>not search_results\<close> tests it.\<close>

fun truthy :: "json \<Rightarrow> bool" where
  "truthy JNull = False"
| "truthy (JBool b) = b"
| "truthy (JNum n) = (n \<noteq> 0)"
| "truthy (JStr s) = (s \<noteq> [])"
| "truthy (JArr xs) = (xs \<noteq> [])"
| "truthy (JObj items) = (items \<noteq> [])"

text \<open>
  \<open>x[:3]\<close> and the iteration over it: a list gives its first three elements, a string
  its first three characters; a \<open>dict\<close>, a number or a boolean cannot be sliced (for a
  \<open>dict\<close> the exception is \<open>TypeError\<close> up to Python 3.11 and \<open>KeyError\<close> from 3.12;
  neither is caught by the caller).
\<close>

definition slice3 :: "json \<Rightarrow> py_error + json list" where
  "slice3 x =
     (case x of
        JArr xs \<Rightarrow> Inr (take 3 xs)
      | JStr s \<Rightarrow> Inr (map (\<lambda>c. JStr [c]) (take 3 s))
      | _ \<Rightarrow> Inl TypeError)"

subsection \<open>String operations\<close>

text \<open>\<open>sub in s\<close> for strings.\<close>

fun py_in :: "pystr \<Rightarrow> pystr \<Rightarrow> bool" where
  "py_in sub [] = (sub = [])"
| "py_in sub (c # cs) = (take (length sub) (c # cs) = sub \<or> py_in sub cs)"

text \<open>
  \<open>s.replace(old, new)\<close>: the occurrences of \<open>old\<close> are found from left to right, each
  search starting after the previous occurrence. For an empty \<open>old\<close> Python puts \<open>new\<close>
  before every character and at the end.
\<close>

fun replace_scan :: "pystr \<Rightarrow> pystr \<Rightarrow> pystr \<Rightarrow> pystr" where
  "replace_scan old new [] = []"
| "replace_scan old new (c # cs) =
     (if take (length old) (c # cs) = old
      then new @ replace_scan old new (drop (length old - 1) cs)
      else c # replace_scan old new cs)"

definition py_replace :: "pystr \<Rightarrow> pystr \<Rightarrow> pystr \<Rightarrow> pystr" where
  "py_replace old new s =
     (if old = [] then new @ concat (map (\<lambda>c. c # new) s) else replace_scan old new s)"

text \<open>The characters \<open>str.strip()\<close> removes: those with \<open>str.isspace()\<close>.\<close>

definition py_isspace :: "nat \<Rightarrow> bool" where
  "py_isspace c =
     ((9 \<le> c \<and> c \<le> 13) \<or> (28 \<le> c \<and> c \<le> 32) \<or> c = 0x85 \<or> c = 0xA0 \<or> c = 0x1680
      \<or> (0x2000 \<le> c \<and> c \<le> 0x200A) \<or> c = 0x2028 \<or> c = 0x2029 \<or> c = 0x202F
      \<or> c = 0x205F \<or> c = 0x3000)"

definition py_strip :: "pystr \<Rightarrow> pystr" where
  "py_strip s = rev (dropWhile py_isspace (rev (dropWhile py_isspace s)))"

subsection \<open>The two upstream services\<close>

text \<open>
  A request is what \<open>requests.post\<close> is given: the search request carries the key and
  the query, the generation request the key (in the URL) and the prompt. The network
  answers a request with a transport failure or with a response, which has a status code
  and a body that is JSON or not.
\<close>

datatype request =
    SerperSearch pystr pystr
  | GeminiGenerate pystr pystr

datatype http_outcome =
    TransportFailure
  | Response nat "json option"

text \<open>
  The environment of a call: the two configured keys (\<open>None\<close> when the variable is not
  set), the network, and Python's \<open>str()\<close> of a value that is not a string, which an
  f-string applies to what it embeds (a parameter).
\<close>

record chat_env =
  SERPER_API_KEY :: "pystr option"
  GEMINI_API_KEY :: "pystr option"
  post :: "request \<Rightarrow> http_outcome"
  str_of :: "json \<Rightarrow> pystr"

text \<open>\<open>not key\<close> for a configuration value: unset or the empty string.\<close>

definition not_set :: "pystr option \<Rightarrow> bool" where
  "not_set key = (case key of None \<Rightarrow> True | Some k \<Rightarrow> k = [])"

text \<open>
  \<open>requests.post(...)\<close>, \<open>resp.raise_for_status()\<close> and \<open>resp.json()\<close>.
  \<open>raise_for_status\<close> raises \<open>HTTPError\<close> for the status codes 400 to 599 and for no
  other; \<open>json()\<close> raises \<open>requests.exceptions.JSONDecodeError\<close> on a body that is not
  JSON (requests 2.27 and later). Both, and every transport failure, are
  \<open>RequestException\<close>s.
\<close>

definition is_error_status :: "nat \<Rightarrow> bool" where
  "is_error_status status = (400 \<le> status \<and> status < 600)"

definition post_json :: "chat_env \<Rightarrow> request \<Rightarrow> py_error + json" where
  "post_json env req =
     (case post env req of
        TransportFailure \<Rightarrow> Inl RequestException
      | Response status body \<Rightarrow>
          if is_error_status status then Inl RequestException
          else (case body of None \<Rightarrow> Inl RequestException | Some j \<Rightarrow> Inr j))"

text \<open>
  \<open>search_web\<close>. The requests sent so far are threaded through and returned with the
  result. Only \<open>RequestException\<close> is caught. The calls of \<open>current_app.logger\<close> change
  nothing that the functions return and are left out, here and below.
\<close>

definition search_web ::
  "chat_env \<Rightarrow> pystr \<Rightarrow> request list \<Rightarrow> (py_error + json) \<times> request list"
where
  "search_web env query sent =
     (if not_set (SERPER_API_KEY env) then (Inr (JArr []), sent)
      else
        (let serper_api_key = the (SERPER_API_KEY env);
             req = SerperSearch serper_api_key query;
             sent' = sent @ [req]
         in case and_then (post_json env req) (\<lambda>data. dict_get data (ascii ''organic'') (JArr [])) of
              Inr organic \<Rightarrow> (Inr organic, sent')
            | Inl e \<Rightarrow> if e = RequestException then (Inr (JArr []), sent') else (Inl e, sent')))"

text \<open>The expression \<open>j["candidates"][0]["content"]["parts"][0]["text"]\<close>.\<close>

definition extract_text :: "json \<Rightarrow> py_error + json" where
  "extract_text j =
     and_then (getitem_key j (ascii ''candidates'')) (\<lambda>a.
     and_then (getitem_0 a) (\<lambda>b.
     and_then (getitem_key b (ascii ''content'')) (\<lambda>c.
     and_then (getitem_key c (ascii ''parts'')) (\<lambda>d.
     and_then (getitem_0 d) (\<lambda>e.
     getitem_key e (ascii ''text''))))))"

definition gemini_key_error :: pystr where
  "gemini_key_error = ascii ''Error: Kunci API Gemini belum dikonfigurasi.''"

text \<open>
  \<open>call_gemini\<close>. It returns a Python object: the message above as a string when the key
  is not set, the extracted value, or \<open>None\<close> when one of the three caught exceptions was
  raised.
\<close>

definition call_gemini ::
  "chat_env \<Rightarrow> pystr \<Rightarrow> request list \<Rightarrow> (py_error + json) \<times> request list"
where
  "call_gemini env prompt sent =
     (if not_set (GEMINI_API_KEY env) then (Inr (JStr gemini_key_error), sent)
      else
        (let gemini_api_key = the (GEMINI_API_KEY env);
             req = GeminiGenerate gemini_api_key prompt;
             sent' = sent @ [req]
         in case and_then (post_json env req) extract_text of
              Inr text \<Rightarrow> (Inr text, sent')
            | Inl e \<Rightarrow>
                if e = RequestException \<or> e = KeyError \<or> e = IndexError
                then (Inr JNull, sent') else (Inl e, sent')))"

subsection \<open>\<open>get_bot_response\<close>\<close>

definition no_search_flag :: pystr where
  "no_search_flag = ascii ''./skip''"

definition direct_prompt :: "pystr \<Rightarrow> pystr" where
  "direct_prompt user_query =
     ascii ''Kamu adalah Putri, asisten virtual yang ramah, ceria, imut, dan ''
     @ ascii ''lembut untuk platform wisata Lelana.id. ''
     @ ascii ''Kamu seperti cewek Indonesia yang baik hati, selalu hangat dan penuh ''
     @ ascii ''perhatian ke pengguna, bikin mereka ngerasa nyaman kayak lagi ''
     @ ascii ''chatting sama sahabat dekat di WhatsApp. ''
     @ ascii ''Jawab semua pertanyaan dalam bahasa Indonesia sepenuhnya, dengan gaya ''
     @ ascii ''bicara manja tapi profesional: pakai paragraf pendek yang ''
     @ ascii ''terstruktur, mudah dibaca, tambahin emoji lucu kalau pas aja, dan ''
     @ ascii ''selalu tekankan info wisata yang akurat. ''
     @ ascii ''Kalau pengetahuanmu terbatas, bilang jujur dan saranin cari info ''
     @ ascii ''lebih lanjut, jangan ngawur atau tambah cerita yang gak perlu. ''
     @ ascii ''Jawab pertanyaan berikut se-informatif dan seakurat mungkin ''
     @ ascii ''berdasarkan pengetahuan umum kamu: '' @ [34] @ user_query @ [34]"

definition augmented_prompt :: "pystr \<Rightarrow> pystr \<Rightarrow> pystr" where
  "augmented_prompt summary user_query =
     ascii ''Kamu adalah Putri, asisten virtual yang ramah, ceria, imut, dan ''
     @ ascii ''lembut untuk platform wisata Lelana.id.'' @ [10]
     @ ascii ''Kamu seperti cewek Indonesia yang baik hati, selalu bucin ke pengguna ''
     @ ascii ''dengan perhatian penuh, bikin mereka ngerasa spesial kayak prioritas ''
     @ ascii ''utama. ''
     @ ascii ''Jawab semua dalam bahasa Indonesia sepenuhnya, gaya bicara manja, ''
     @ ascii ''hangat, mudah dibaca: pakai paragraf pendek yang terstruktur kayak ''
     @ ascii ''chatting di WhatsApp, tambahin emoji lucu kalau pas aja, tapi tetep ''
     @ ascii ''informatif dan sopan.'' @ [10]
     @ ascii ''Berikut adalah beberapa informasi relevan dari web terkait pertanyaan ''
     @ ascii ''pengguna, gunakan ini sebagai referensi utama tapi crosscheck ''
     @ ascii ''kebenarannya dengan pengetahuan umum kamu:'' @ [10] @ [10] @ summary @ [10] @ [10]
     @ ascii ''Berdasarkan informasi tersebut, improve dan jawab pertanyaan berikut ''
     @ ascii ''dengan 100% sesuai konteks: kalau ada yang gak akurat di summary, ''
     @ ascii ''koreksi dengan info yang bener, jangan tambah-tambah yang gak ''
     @ ascii ''relevan, dan selalu fokus ke wisata Lelana.id: '' @ [34] @ user_query @ [34]
     @ ascii ''. ''
     @ ascii ''Kalau info dari web kurang lengkap, tambahin dari pengetahuanmu tapi ''
     @ ascii ''bilang sumbernya jujur ya!''"

definition apology :: pystr where
  "apology =
     ascii ''Maaf, sepertinya Putri sedang mengalami sedikit kendala teknis. Coba ''
     @ ascii ''lagi beberapa saat lagi ya! '' @ [128546]"

text \<open>An embedded value \<open>{t}\<close> of an f-string: a string as it is, anything else by \<open>str()\<close>.\<close>

definition fstr :: "chat_env \<Rightarrow> json \<Rightarrow> pystr" where
  "fstr env v = (case v of JStr s \<Rightarrow> s | _ \<Rightarrow> str_of env v)"

text \<open>The loop that builds \<open>summary\<close> from the items of \<open>search_results[:3]\<close>.\<close>

fun summary_loop :: "chat_env \<Rightarrow> json list \<Rightarrow> pystr \<Rightarrow> py_error + pystr" where
  "summary_loop env [] summary = Inr summary"
| "summary_loop env (item # rest) summary =
     and_then (dict_get item (ascii ''title'') (JStr [])) (\<lambda>t.
     and_then (dict_get item (ascii ''snippet'') (JStr [])) (\<lambda>s.
     summary_loop env rest
       (summary @ ascii ''- '' @ fstr env t @ ascii '': '' @ fstr env s @ [10])))"

text \<open>
  The first branch of \<open>get_bot_response\<close>: the query and the search results it goes on
  with.
\<close>

definition get_bot_response_search ::
  "chat_env \<Rightarrow> pystr \<Rightarrow> request list \<Rightarrow> (py_error + pystr \<times> json) \<times> request list"
where
  "get_bot_response_search env user_query sent =
     (if py_in no_search_flag user_query
      then (Inr (py_strip (py_replace no_search_flag [] user_query), JArr []), sent)
      else
        (case search_web env user_query sent of
           (Inl e, sent') \<Rightarrow> (Inl e, sent')
         | (Inr search_results, sent') \<Rightarrow> (Inr (user_query, search_results), sent')))"

text \<open>The second branch: the prompt for the search results at hand.\<close>

definition get_bot_response_prompt :: "chat_env \<Rightarrow> json \<Rightarrow> pystr \<Rightarrow> py_error + pystr" where
  "get_bot_response_prompt env search_results user_query =
     (if \<not> truthy search_results then Inr (direct_prompt user_query)
      else
        and_then (slice3 search_results) (\<lambda>items.
        and_then (summary_loop env items []) (\<lambda>summary.
        Inr (augmented_prompt summary user_query))))"

text \<open>The prompt that \<open>get_bot_response\<close> hands to \<open>call_gemini\<close>, with the requests sent.\<close>

definition generation_prompt ::
  "chat_env \<Rightarrow> pystr \<Rightarrow> request list \<Rightarrow> (py_error + pystr) \<times> request list"
where
  "generation_prompt env user_query sent =
     (case get_bot_response_search env user_query sent of
        (Inl e, sent') \<Rightarrow> (Inl e, sent')
      | (Inr (user_query', search_results), sent') \<Rightarrow>
          (get_bot_response_prompt env search_results user_query', sent'))"

definition get_bot_response ::
  "chat_env \<Rightarrow> pystr \<Rightarrow> request list \<Rightarrow> (py_error + pystr) \<times> request list"
where
  "get_bot_response env user_query sent =
     (case generation_prompt env user_query sent of
        (Inl e, sent') \<Rightarrow> (Inl e, sent')
      | (Inr prompt, sent') \<Rightarrow>
          (case call_gemini env prompt sent' of
             (Inl e, sent'') \<Rightarrow> (Inl e, sent'')
           | (Inr answer, sent'') \<Rightarrow>
               (case answer of
                  JNull \<Rightarrow> (Inr apology, sent'')
                | JStr s \<Rightarrow> (Inr (py_strip s), sent'')
                | _ \<Rightarrow> (Inl AttributeError, sent''))))"

text \<open>The search requests among the requests sent.\<close>

fun is_search :: "request \<Rightarrow> bool" where
  "is_search (SerperSearch key query) = True"
| "is_search (GeminiGenerate key prompt) = False"




subsection \<open>Concrete instances\<close>

text \<open>
  A generation response of the expected shape around a given text, a search result, and an
  environment with given keys in which every search request has one outcome and every
  generation request another.
\<close>

definition gemini_reply :: "json \<Rightarrow> json" where
  "gemini_reply text =
     JObj [(ascii ''candidates'',
       JArr [JObj [(ascii ''content'',
         JObj [(ascii ''parts'', JArr [JObj [(ascii ''text'', text)]])])]])]"


definition example_chat_env ::
  "pystr option \<Rightarrow> pystr option \<Rightarrow> http_outcome \<Rightarrow> http_outcome \<Rightarrow> chat_env"
where
  "example_chat_env serper_key gemini_key search_outcome generation_outcome =
     \<lparr>SERPER_API_KEY = serper_key, GEMINI_API_KEY = gemini_key,
      post = (\<lambda>req. case req of
                SerperSearch key query \<Rightarrow> search_outcome
              | GeminiGenerate key prompt \<Rightarrow> generation_outcome),
      str_of = (\<lambda>v. [])\<rparr>"


section \<open>Facts about the library functions\<close>

subsection \<open>ASCII literals\<close>

lemma ascii_eq_iff [simp]: "ascii s = ascii t \<longleftrightarrow> s = t"
  by (simp add: ascii_def inj_map_eq_map [OF inj_of_char])

lemma length_ascii [simp]: "length (ascii s) = length s"
  by (simp add: ascii_def)

lemma ascii_Nil_iff [simp]: "(ascii s = []) = (s = [])"
  by (simp add: ascii_def)

subsection \<open>The string form of a version-4 UUID\<close>

text \<open>
  Whatever the sixteen random octets are, the integer of the UUID lies below \<open>2 ^ 128\<close>,
  so its string form has 32 hexadecimal digits and four dashes.
\<close>

lemma uuid4_int_bounds: "0 \<le> uuid4_int r \<and> uuid4_int r < 2 ^ 128"
proof -
  have a: "0 \<le> uint r" "uint r < 2 ^ 128"
    using uint_lt2p [of r] by simp_all
  define i1 where "i1 = uint r AND NOT (push_bit 48 0xc000)"
  have i1: "0 \<le> i1" "i1 < 2 ^ 128"
    using a AND_upper1' [of "uint r" "2 ^ 128" "NOT (push_bit 48 0xc000)"]
    by (simp_all add: i1_def)
  define i2 where "i2 = i1 OR push_bit 48 0x8000"
  have i2: "0 \<le> i2" "i2 < 2 ^ 128"
    using i1 OR_upper [of i1 128 "push_bit 48 0x8000"] by (simp_all add: i2_def)
  define i3 where "i3 = i2 AND NOT (push_bit 64 0xf000)"
  have i3: "0 \<le> i3" "i3 < 2 ^ 128"
    using i2 AND_upper1' [of i2 "2 ^ 128" "NOT (push_bit 64 0xf000)"]
    by (simp_all add: i3_def)
  have "0 \<le> i3 OR push_bit 76 4" "i3 OR push_bit 76 4 < 2 ^ 128"
    using i3 OR_upper [of i3 128 "push_bit 76 4"] by simp_all
  then show ?thesis
    by (simp add: uuid4_int_def i1_def i2_def i3_def Let_def)
qed

lemma uuid_chars_iff:
  "c \<in> set uuid_chars \<longleftrightarrow> (48 \<le> c \<and> c \<le> 57) \<or> (97 \<le> c \<and> c \<le> 102) \<or> c = 45"
  unfolding uuid_chars_def ascii_def by simp arith

lemma hexdigit_in: "d < 16 \<Longrightarrow> hexdigit d \<in> set uuid_chars"
  unfolding uuid_chars_iff hexdigit_def by simp

lemma hex_of_chars: "list_all (\<lambda>c. c \<in> set uuid_chars) (hex_of n)"
proof (induction n rule: hex_of.induct)
  case (1 n)
  show ?case
  proof (cases "n < 16")
    case True
    then show ?thesis by (simp add: hex_of.simps [of n] hexdigit_in)
  next
    case False
    with 1 show ?thesis by (simp add: hex_of.simps [of n] hexdigit_in)
  qed
qed

lemma length_hex_of: "n < 16 ^ k \<Longrightarrow> 0 < k \<Longrightarrow> length (hex_of n) \<le> k"
proof (induction n arbitrary: k rule: hex_of.induct)
  case (1 n)
  show ?case
  proof (cases "n < 16")
    case True
    with 1 show ?thesis by (simp add: hex_of.simps [of n])
  next
    case False
    with "1.prems" obtain k' where k: "k = Suc k'" by (cases k) auto
    with False "1.prems" have "0 < k'" by (cases k') auto
    moreover from k "1.prems" have "n div 16 < 16 ^ k'"
      by (simp add: less_mult_imp_div_less mult.commute)
    ultimately have "length (hex_of (n div 16)) \<le> k'"
      using 1 False by simp
    with False k show ?thesis by (simp add: hex_of.simps [of n])
  qed
qed

lemma length_format_032x: "0 \<le> i \<Longrightarrow> i < 2 ^ 128 \<Longrightarrow> length (format_032x i) = 32"
proof -
  assume a: "0 \<le> i" "i < 2 ^ 128"
  then have "nat i < 16 ^ 32" by simp
  then have "length (hex_of (nat i)) \<le> 32" by (rule length_hex_of) simp
  with a show ?thesis by (simp add: format_032x_def Let_def)
qed

lemma format_032x_chars: "0 \<le> i \<Longrightarrow> list_all (\<lambda>c. c \<in> set uuid_chars) (format_032x i)"
  using hex_of_chars [of "nat i"]
  by (auto simp: format_032x_def Let_def list_all_iff uuid_chars_iff)

lemma length_uuid_str: "length (uuid_str (uuid4_int r)) = 36"
  using uuid4_int_bounds [of r]
  by (simp add: uuid_str_def Let_def length_format_032x)

lemma set_uuid_str: "set (uuid_str i) \<subseteq> insert 45 (set (format_032x i))"
proof -
  have "set (take n (drop m xs)) \<subseteq> set xs" for n m and xs :: pystr
    using set_take_subset [of n "drop m xs"] set_drop_subset [of m xs] by blast
  moreover have "set (take n xs) \<subseteq> set xs" "set (drop n xs) \<subseteq> set xs" for n and xs :: pystr
    by (rule set_take_subset, rule set_drop_subset)
  ultimately show ?thesis
    unfolding uuid_str_def Let_def set_append by (simp add: le_supI1 le_supI2 subset_insertI2)
qed

lemma uuid_str_chars: "list_all (\<lambda>c. c \<in> set uuid_chars) (uuid_str (uuid4_int r))"
proof -
  have "list_all (\<lambda>c. c \<in> set uuid_chars) (format_032x (uuid4_int r))"
    using uuid4_int_bounds [of r] by (simp add: format_032x_chars)
  then have "set (format_032x (uuid4_int r)) \<subseteq> set uuid_chars"
    by (auto simp: list_all_iff)
  moreover have "45 \<in> set uuid_chars"
    by (simp add: uuid_chars_iff)
  ultimately have "set (uuid_str (uuid4_int r)) \<subseteq> set uuid_chars"
    using set_uuid_str [of "uuid4_int r"] by blast
  then show ?thesis by (auto simp: list_all_iff)
qed

lemma zero_uuid_eq: "uuid_str (uuid4_int 0) = zero_uuid"
proof -
  have "uuid4_int 0 = 0x40008000000000000000"
    by (simp add: uuid4_int_def)
  moreover have "replicate 12 (48::nat) = [48, 48, 48, 48, 48, 48, 48, 48, 48, 48, 48, 48]"
    by code_simp
  then have "format_032x 0x40008000000000000000 = ascii ''00000000000040008000000000000000''"
    by (simp add: format_032x_def hex_of.simps hexdigit_def ascii_def)
  ultimately show ?thesis
    by (simp add: uuid_str_def zero_uuid_def ascii_def)
qed

subsection \<open>\<open>splitext\<close>\<close>

lemma rfind_bounds: "- 1 \<le> rfind c s \<and> rfind c s < int (length s)"
  by (induction s) (auto simp: Let_def)

lemma rfind_notin: "c \<notin> set s \<Longrightarrow> rfind c s = - 1"
  by (induction s) (auto simp: Let_def)

lemma rfind_append_notin: "c \<notin> set t \<Longrightarrow> rfind c (s @ t) = rfind c s"
  by (induction s) (auto simp: Let_def rfind_notin)

lemma rfind_append_last: "c \<notin> set t \<Longrightarrow> rfind c (s @ c # t) = int (length s)"
  by (induction s) (auto simp: Let_def rfind_notin)

lemma splitext_scan_iff:
  "d \<le> length p \<Longrightarrow> splitext_scan p i d = (\<exists>k. i \<le> k \<and> k < d \<and> p ! k \<noteq> EXTSEP)"
proof (induction p i d rule: splitext_scan.induct)
  case (1 p i d)
  show ?case
  proof (cases "i < d")
    case False
    then show ?thesis by (simp add: splitext_scan.simps [of p i d])
  next
    case True
    with "1.prems" have il: "i < length p" by simp
    then have hd: "take 1 (drop i p) = [p ! i]"
      by (simp add: take_Suc_conv_app_nth)
    show ?thesis
    proof (cases "p ! i = EXTSEP")
      case False
      with True hd show ?thesis
        by (auto simp: splitext_scan.simps [of p i d])
    next
      case e: True
      have "splitext_scan p i d = splitext_scan p (i + 1) d"
        using True hd e by (simp add: splitext_scan.simps [of p i d])
      also have "\<dots> = (\<exists>k. i + 1 \<le> k \<and> k < d \<and> p ! k \<noteq> EXTSEP)"
        using "1.IH" True hd e "1.prems" by simp
      also have "\<dots> = (\<exists>k. i \<le> k \<and> k < d \<and> p ! k \<noteq> EXTSEP)"
        using e by (metis Suc_eq_plus1 Suc_leI le_neq_implies_less Suc_leD)
      finally show ?thesis .
    qed
  qed
qed

lemma has_stem_iff:
  "has_stem s = (\<exists>k. nat (rfind SEP s + 1) \<le> k \<and> k < length s \<and> s ! k \<noteq> EXTSEP)"
proof -
  have "list_ex P (drop n xs) = (\<exists>k. n \<le> k \<and> k < length xs \<and> P (xs ! k))" for P n and xs :: pystr
  proof
    assume "list_ex P (drop n xs)"
    then obtain j where "j < length (drop n xs)" "P (drop n xs ! j)"
      by (auto simp: list_ex_iff in_set_conv_nth)
    then have "n \<le> n + j \<and> n + j < length xs \<and> P (xs ! (n + j))" by auto
    then show "\<exists>k. n \<le> k \<and> k < length xs \<and> P (xs ! k)" by blast
  next
    assume "\<exists>k. n \<le> k \<and> k < length xs \<and> P (xs ! k)"
    then obtain k where k: "n \<le> k" "k < length xs" "P (xs ! k)" by blast
    then have "k - n < length (drop n xs)" "drop n xs ! (k - n) = xs ! k" by auto
    with k show "list_ex P (drop n xs)"
      by (metis list_ex_iff nth_mem)
  qed
  then show ?thesis by (simp add: has_stem_def)
qed

lemma splitext_with_ext:
  assumes "has_stem stem" "EXTSEP \<notin> set e" "SEP \<notin> set e"
  shows "splitext (stem @ EXTSEP # e) = (stem, EXTSEP # e)"
proof -
  let ?p = "stem @ EXTSEP # e"
  have dot: "rfind EXTSEP ?p = int (length stem)"
    using assms(2) by (rule rfind_append_last)
  have "SEP \<notin> set (EXTSEP # e)"
    using assms(3) by (simp add: SEP_def EXTSEP_def)
  then have sep: "rfind SEP ?p = rfind SEP stem"
    by (rule rfind_append_notin)
  from assms(1) obtain k where k: "nat (rfind SEP stem + 1) \<le> k" "k < length stem" "stem ! k \<noteq> EXTSEP"
    by (auto simp: has_stem_iff)
  then have "?p ! k \<noteq> EXTSEP" by (simp add: nth_append)
  with k have scan: "splitext_scan ?p (nat (rfind SEP stem + 1)) (length stem)"
    by (subst splitext_scan_iff) auto
  have "rfind SEP stem < int (length stem)"
    using rfind_bounds [of SEP stem] by simp
  with dot sep scan show ?thesis
    by (simp add: splitext_def Let_def)
qed

lemma splitext_png: "has_stem stem \<Longrightarrow> splitext (stem @ ascii ''.png'') = (stem, ascii ''.png'')"
  using splitext_with_ext [of stem "ascii ''png''"]
  by (simp add: ascii_def EXTSEP_def SEP_def)

section \<open>Properties of \<open>save_pictures\<close>\<close>

subsection \<open>One step of the loop and the whole loop\<close>

lemma save_loop_reject:
  "\<not> accepted env p \<Longrightarrow>
   save_loop env (p # rest) saved w = (Inl (ValueError (invalid_type_message (detected env p))), w)"
  by (simp add: accepted_def detected_def stream_read_def Let_def)

lemma save_loop_accept:
  "accepted env p \<Longrightarrow>
   save_loop env (p # rest) saved w =
     save_loop env rest (saved @ [stored_name env (draws w) p])
       (w\<lparr>draws := Suc (draws w),
          written := written w
             @ [(path_join (upload_folder env) (stored_name env (draws w) p), stream_data p)]\<rparr>)"
  by (simp add: accepted_def detected_def stream_read_def stream_seek_def uuid4_def fs_save_def
      stored_name_def Let_def)

declare save_loop.simps(2) [simp del]

lemma save_loop_all_accepted:
  "list_all (accepted env) pics \<Longrightarrow>
   save_loop env pics saved w =
     (Inr (saved @ stored_names env (draws w) pics),
      w\<lparr>draws := draws w + length pics,
        written := written w @ stored_files env (draws w) pics\<rparr>)"
proof (induction pics arbitrary: saved w)
  case Nil
  then show ?case by simp
next
  case (Cons p pics)
  then have "accepted env p" "list_all (accepted env) pics" by simp_all
  then show ?case
    by (simp add: save_loop_accept Cons.IH)
qed

lemma save_loop_first_rejected:
  "list_all (accepted env) pre \<Longrightarrow> \<not> accepted env p \<Longrightarrow>
   save_loop env (pre @ p # suf) saved w =
     (Inl (ValueError (invalid_type_message (detected env p))),
      w\<lparr>draws := draws w + length pre,
        written := written w @ stored_files env (draws w) pre\<rparr>)"
proof (induction pre arbitrary: saved w)
  case Nil
  then show ?case by (simp add: save_loop_reject)
next
  case (Cons q pre)
  then have "accepted env q" "list_all (accepted env) pre" by simp_all
  with Cons.prems(2) show ?case
    by (simp add: save_loop_accept Cons.IH)
qed

lemma first_rejected_split:
  "\<not> list_all P xs \<Longrightarrow> \<exists>pre x suf. xs = pre @ x # suf \<and> list_all P pre \<and> \<not> P x"
proof -
  assume "\<not> list_all P xs"
  then obtain x where "x \<in> set xs" "\<not> P x" by (auto simp: list_all_iff)
  then have "xs = takeWhile P xs @ hd (dropWhile P xs) # tl (dropWhile P xs)"
    "\<not> P (hd (dropWhile P xs))"
    by (metis takeWhile_dropWhile_id dropWhile_eq_Nil_conv list.collapse, 
        metis dropWhile_eq_Nil_conv hd_dropWhile)
  moreover have "list_all P (takeWhile P xs)"
    by (auto simp: list_all_iff dest: set_takeWhileD)
  ultimately show ?thesis by blast
qed

lemma save_loop_accepted_prefix:
  "list_all (accepted env) pre \<Longrightarrow>
   save_loop env (pre @ rest) saved w =
     save_loop env rest (saved @ stored_names env (draws w) pre)
       (w\<lparr>draws := draws w + length pre,
          written := written w @ stored_files env (draws w) pre\<rparr>)"
proof (induction pre arbitrary: saved w)
  case Nil
  then show ?case by simp
next
  case (Cons q pre)
  then have "accepted env q" "list_all (accepted env) pre" by simp_all
  then show ?case
    by (simp add: save_loop_accept Cons.IH)
qed

lemma save_loop_written_extends:
  "\<exists>ws. written (snd (save_loop env pics saved w)) = written w @ ws"
proof (cases "list_all (accepted env) pics")
  case True
  then show ?thesis by (simp add: save_loop_all_accepted)
next
  case False
  then obtain pre p suf
    where "pics = pre @ p # suf" "list_all (accepted env) pre" "\<not> accepted env p"
    using first_rejected_split by blast
  then show ?thesis by (simp add: save_loop_first_rejected)
qed

lemma length_stored_names [simp]: "length (stored_names env k ps) = length ps"
  by (induction ps arbitrary: k) auto

lemma nth_stored_names:
  "i < length ps \<Longrightarrow> stored_names env k ps ! i = stored_name env (k + i) (ps ! i)"
proof (induction ps arbitrary: k i)
  case Nil
  then show ?case by simp
next
  case (Cons p ps)
  then show ?case by (cases i) auto
qed

lemma matches_stored_name:
  "matches_name_pattern (stored_name env k p) = (snd (splitext (filename p)) \<in> set pattern_exts)"
  using uuid_str_chars [of "urandom env k"]
  by (simp add: matches_name_pattern_def stored_name_def length_uuid_str)

text \<open>For a stream at its start the octets read for detection are the leading 2048 of the file.\<close>

lemma detected_at_start:
  "stream_pos p = 0 \<Longrightarrow> detected env p = from_buffer env (take 2048 (stream_data p))"
  by (simp add: detected_def stream_read_def Let_def)

subsection \<open>The concrete instances\<close>

lemmas splitext_eval = splitext_def splitext_scan.simps ascii_def SEP_def EXTSEP_def Let_def

lemma detected_jpeg [simp]: "detected example_env (upload n jpeg_bytes) = ascii ''image/jpeg''"
  by (simp add: detected_def example_env_def upload_def jpeg_bytes_def stream_read_def
      example_magic_def Let_def)

lemma detected_text [simp]: "detected example_env (upload n text_bytes) = ascii ''text/plain''"
  by (simp add: detected_def example_env_def upload_def text_bytes_def stream_read_def
      example_magic_def Let_def)

lemma accepted_jpeg [simp]: "accepted example_env (upload n jpeg_bytes)"
  by (simp add: accepted_def allowed_mimes_def)

lemma rejected_text [simp]: "\<not> accepted example_env (upload n text_bytes)"
  by (simp add: accepted_def allowed_mimes_def)

lemma example_stored_name:
  "stored_name example_env k (upload n b) = zero_uuid @ snd (splitext (ascii n))"
  by (simp add: stored_name_def example_env_def upload_def zero_uuid_eq)

lemma example_join:
  "path_join (upload_folder example_env) (zero_uuid @ e) = ascii ''/srv/uploads/'' @ zero_uuid @ e"
  by (simp add: path_join_def example_env_def zero_uuid_def ascii_def SEP_def)

lemma example_urandom [simp]: "urandom example_env k = 0"
  by (simp add: example_env_def)

lemma upload_fields [simp]:
  "filename (upload n b) = ascii n" "stream_data (upload n b) = b"
  by (simp_all add: upload_def)

lemma example_rejected_batch:
  "save_pictures example_env [upload ''a.jpg'' jpeg_bytes, upload ''notes.txt'' text_bytes] world0
     = (Inl (ValueError (invalid_type_message (ascii ''text/plain''))),
        world0\<lparr>draws := 1,
          written := [(ascii ''/srv/uploads/00000000-0000-4000-8000-000000000000.jpg'',
                       jpeg_bytes)]\<rparr>)"
proof -
  have "snd (splitext (ascii ''a.jpg'')) = ascii ''.jpg''"
    by (simp add: splitext_eval)
  moreover have "ascii ''/srv/uploads/'' @ zero_uuid @ ascii ''.jpg''
      = ascii ''/srv/uploads/00000000-0000-4000-8000-000000000000.jpg''"
    by (simp add: zero_uuid_def ascii_def)
  ultimately show ?thesis
    using save_loop_first_rejected [of example_env "[upload ''a.jpg'' jpeg_bytes]"
        "upload ''notes.txt'' text_bytes" "[]" "[]" world0]
    by (simp add: save_pictures_def example_stored_name example_join world0_def)
qed

subsection \<open>Rejection of a batch\<close>

text \<open>
  Claim C1. When some candidate of a batch has a detected type outside the allowed list,
  \<open>save_pictures\<close> raises the \<open>ValueError\<close> that names the detected type of the first such
  candidate. No candidate at or after that one is written; the candidates before it, all
  of an allowed type, have been written by then and stay in the storage directory.
\<close>

theorem save_pictures_stops_at_first_rejected:
  assumes "\<not> list_all (accepted env) pics"
  shows "\<exists>pre p suf. pics = pre @ p # suf \<and> list_all (accepted env) pre \<and> \<not> accepted env p
           \<and> save_pictures env pics w =
               (Inl (ValueError (invalid_type_message (detected env p))),
                w\<lparr>draws := draws w + length pre,
                  written := written w @ stored_files env (draws w) pre\<rparr>)"
proof -
  from assms obtain pre p suf
    where s: "pics = pre @ p # suf" "list_all (accepted env) pre" "\<not> accepted env p"
    using first_rejected_split by blast
  then have "save_pictures env pics w =
               (Inl (ValueError (invalid_type_message (detected env p))),
                w\<lparr>draws := draws w + length pre,
                  written := written w @ stored_files env (draws w) pre\<rparr>)"
    by (simp add: save_pictures_def save_loop_first_rejected)
  with s show ?thesis by blast
qed

text \<open>
  Claim C1, a run of the theorem: a JPEG, a text file and another JPEG. The first JPEG is
  written, the text file is rejected, the second JPEG is never looked at.
\<close>

theorem save_pictures_stops_at_first_rejected_witness:
  "\<not> list_all (accepted example_env)
       [upload ''a.jpg'' jpeg_bytes, upload ''notes.txt'' text_bytes, upload ''c.jpg'' jpeg_bytes]
   \<and> (\<exists>pre p suf.
         [upload ''a.jpg'' jpeg_bytes, upload ''notes.txt'' text_bytes, upload ''c.jpg'' jpeg_bytes]
           = pre @ p # suf
         \<and> list_all (accepted example_env) pre \<and> \<not> accepted example_env p
         \<and> save_pictures example_env
             [upload ''a.jpg'' jpeg_bytes, upload ''notes.txt'' text_bytes,
              upload ''c.jpg'' jpeg_bytes] world0 =
               (Inl (ValueError (invalid_type_message (detected example_env p))),
                world0\<lparr>draws := draws world0 + length pre,
                  written := written world0 @ stored_files example_env (draws world0) pre\<rparr>))"
proof -
  have h: "\<not> list_all (accepted example_env)
       [upload ''a.jpg'' jpeg_bytes, upload ''notes.txt'' text_bytes, upload ''c.jpg'' jpeg_bytes]"
    by simp
  show ?thesis
    using h save_pictures_stops_at_first_rejected [OF h, of world0] by simp
qed

text \<open>
  Claim C1 as an all-or-nothing statement fails: in the batch of a JPEG followed by a text
  file the call raises for the text file, and the JPEG is in the storage directory.
\<close>

theorem save_pictures_leaves_earlier_files:
  "detected example_env (upload ''notes.txt'' text_bytes) \<notin> set allowed_mimes
   \<and> fst (save_pictures example_env
            [upload ''a.jpg'' jpeg_bytes, upload ''notes.txt'' text_bytes] world0)
       = Inl (ValueError (invalid_type_message (ascii ''text/plain'')))
   \<and> written (snd (save_pictures example_env
            [upload ''a.jpg'' jpeg_bytes, upload ''notes.txt'' text_bytes] world0))
       = [(ascii ''/srv/uploads/00000000-0000-4000-8000-000000000000.jpg'', jpeg_bytes)]"
  by (simp add: example_rejected_batch allowed_mimes_def)

subsection \<open>Only accepted candidates are written\<close>

text \<open>
  Claim C9. In every call, whether it returns or raises, the files written are those of
  the first \<open>n\<close> candidates for some \<open>n\<close>, each with its whole content, and each of these
  candidates has a detected type in the allowed list: no candidate of another detected
  type is ever written.
\<close>

theorem save_pictures_writes_only_allowed:
  "\<exists>n. written (snd (save_pictures env pics w))
          = written w @ stored_files env (draws w) (take n pics)
        \<and> list_all (\<lambda>p. detected env p \<in> set allowed_mimes) (take n pics)"
proof (cases "list_all (accepted env) pics")
  case True
  then have "written (snd (save_pictures env pics w))
          = written w @ stored_files env (draws w) (take (length pics) pics)
        \<and> list_all (\<lambda>p. detected env p \<in> set allowed_mimes) (take (length pics) pics)"
    by (simp add: save_pictures_def save_loop_all_accepted accepted_def [abs_def])
  then show ?thesis by blast
next
  case False
  then obtain pre p suf
    where s: "pics = pre @ p # suf" "list_all (accepted env) pre" "\<not> accepted env p"
    using first_rejected_split by blast
  then have "written (snd (save_pictures env pics w))
          = written w @ stored_files env (draws w) (take (length pre) pics)
        \<and> list_all (\<lambda>p. detected env p \<in> set allowed_mimes) (take (length pre) pics)"
    by (simp add: save_pictures_def save_loop_first_rejected accepted_def [abs_def])
  then show ?thesis by blast
qed

text \<open>Claim C9, a run: of a JPEG and a text file only the JPEG is written.\<close>

theorem save_pictures_writes_only_allowed_witness:
  "(\<exists>n. written (snd (save_pictures example_env
            [upload ''a.jpg'' jpeg_bytes, upload ''notes.txt'' text_bytes] world0))
          = written world0 @ stored_files example_env (draws world0)
              (take n [upload ''a.jpg'' jpeg_bytes, upload ''notes.txt'' text_bytes])
        \<and> list_all (\<lambda>p. detected example_env p \<in> set allowed_mimes)
              (take n [upload ''a.jpg'' jpeg_bytes, upload ''notes.txt'' text_bytes]))
   \<and> written (snd (save_pictures example_env
            [upload ''a.jpg'' jpeg_bytes, upload ''notes.txt'' text_bytes] world0))
       = [(ascii ''/srv/uploads/00000000-0000-4000-8000-000000000000.jpg'', jpeg_bytes)]"
  using save_pictures_writes_only_allowed [of example_env "[upload ''a.jpg'' jpeg_bytes, upload ''notes.txt'' text_bytes]" world0]
  by (simp add: example_rejected_batch)

subsection \<open>The stored names\<close>

text \<open>
  Claim C3. A call that returns gives one name per candidate, in order. Each name is 36
  characters from \<open>0-9\<close>, \<open>a-f\<close> and the dash, followed by the extension that \<open>splitext\<close>
  finds in the original file name, unchanged. The name matches the naming pattern exactly
  when that extension is one of \<open>.jpg\<close>, \<open>.jpeg\<close>, \<open>.png\<close>, \<open>.gif\<close> in lower case.
\<close>

theorem save_pictures_stored_names:
  assumes "save_pictures env pics w = (Inr names, w')"
  shows "length names = length pics
         \<and> (\<forall>i<length pics.
              \<exists>u. names ! i = u @ snd (splitext (filename (pics ! i)))
                \<and> length u = 36 \<and> list_all (\<lambda>c. c \<in> set uuid_chars) u
                \<and> matches_name_pattern (names ! i)
                    = (snd (splitext (filename (pics ! i))) \<in> set pattern_exts))"
proof -
  have acc: "list_all (accepted env) pics"
  proof (rule ccontr)
    assume "\<not> list_all (accepted env) pics"
    then obtain pre p suf
      where "pics = pre @ p # suf" "list_all (accepted env) pre" "\<not> accepted env p"
      using first_rejected_split by blast
    with assms show False
      by (simp add: save_pictures_def save_loop_first_rejected)
  qed
  with assms have names: "names = stored_names env (draws w) pics"
    by (simp add: save_pictures_def save_loop_all_accepted)
  have "\<exists>u. names ! i = u @ snd (splitext (filename (pics ! i)))
                \<and> length u = 36 \<and> list_all (\<lambda>c. c \<in> set uuid_chars) u
                \<and> matches_name_pattern (names ! i)
                    = (snd (splitext (filename (pics ! i))) \<in> set pattern_exts)"
    if "i < length pics" for i
  proof -
    let ?u = "uuid_str (uuid4_int (urandom env (draws w + i)))"
    have "names ! i = stored_name env (draws w + i) (pics ! i)"
      using that names by (simp add: nth_stored_names)
    then have "names ! i = ?u @ snd (splitext (filename (pics ! i)))"
      "matches_name_pattern (names ! i)
         = (snd (splitext (filename (pics ! i))) \<in> set pattern_exts)"
      by (simp_all add: matches_stored_name) (simp add: stored_name_def)
    moreover have "length ?u = 36" "list_all (\<lambda>c. c \<in> set uuid_chars) ?u"
      by (rule length_uuid_str, rule uuid_str_chars)
    ultimately show ?thesis by blast
  qed
  with names show ?thesis by simp
qed

text \<open>Claim C3, a run: a JPEG uploaded as \<open>Photo.png\<close>.\<close>

theorem save_pictures_stored_names_witness:
  "save_pictures example_env [upload ''Photo.png'' jpeg_bytes] world0
     = (Inr [ascii ''00000000-0000-4000-8000-000000000000.png''],
        world0\<lparr>draws := 1,
          written := [(ascii ''/srv/uploads/00000000-0000-4000-8000-000000000000.png'',
                       jpeg_bytes)]\<rparr>)
   \<and> (\<exists>u. ascii ''00000000-0000-4000-8000-000000000000.png'' = u @ ascii ''.png''
          \<and> length u = 36 \<and> list_all (\<lambda>c. c \<in> set uuid_chars) u
          \<and> matches_name_pattern (ascii ''00000000-0000-4000-8000-000000000000.png''))"
proof -
  have e: "snd (splitext (ascii ''Photo.png'')) = ascii ''.png''"
    by (simp add: splitext_eval)
  have n: "zero_uuid @ ascii ''.png'' = ascii ''00000000-0000-4000-8000-000000000000.png''"
    "ascii ''/srv/uploads/'' @ zero_uuid @ ascii ''.png''
       = ascii ''/srv/uploads/00000000-0000-4000-8000-000000000000.png''"
    by (simp_all add: zero_uuid_def ascii_def)
  have run: "save_pictures example_env [upload ''Photo.png'' jpeg_bytes] world0
     = (Inr [ascii ''00000000-0000-4000-8000-000000000000.png''],
        world0\<lparr>draws := 1,
          written := [(ascii ''/srv/uploads/00000000-0000-4000-8000-000000000000.png'',
                       jpeg_bytes)]\<rparr>)"
    using save_loop_all_accepted [of example_env "[upload ''Photo.png'' jpeg_bytes]" "[]" world0]
    by (simp add: save_pictures_def example_stored_name example_join world0_def e)
      (simp add: zero_uuid_def ascii_def)
  have m: "ascii ''.png'' \<in> set pattern_exts"
    by (simp add: pattern_exts_def)
  show ?thesis
    using run save_pictures_stored_names [OF run] e m by simp
qed

text \<open>
  Claim C3 as stated fails: a JPEG uploaded as \<open>shell.php\<close> is accepted, and its stored
  name ends in \<open>.php\<close>, which the pattern does not match.
\<close>

theorem stored_name_keeps_any_extension:
  "fst (save_pictures example_env [upload ''shell.php'' jpeg_bytes] world0)
     = Inr [ascii ''00000000-0000-4000-8000-000000000000.php'']
   \<and> \<not> matches_name_pattern (ascii ''00000000-0000-4000-8000-000000000000.php'')"
proof -
  have "snd (splitext (ascii ''shell.php'')) = ascii ''.php''"
    by (simp add: splitext_eval)
  then have "fst (save_pictures example_env [upload ''shell.php'' jpeg_bytes] world0)
      = Inr [zero_uuid @ ascii ''.php'']"
    using save_loop_all_accepted [of example_env "[upload ''shell.php'' jpeg_bytes]" "[]" world0]
    by (simp add: save_pictures_def example_stored_name)
  moreover have "zero_uuid @ ascii ''.php'' = ascii ''00000000-0000-4000-8000-000000000000.php''"
    by (simp add: zero_uuid_def ascii_def)
  moreover have "\<not> matches_name_pattern (ascii ''00000000-0000-4000-8000-000000000000.php'')"
    by (simp add: matches_name_pattern_def pattern_exts_def ascii_def)
  ultimately show ?thesis by simp
qed

subsection \<open>Content decides acceptance, the file name decides the extension\<close>

text \<open>
  Claim C8. A candidate whose content is detected as JPEG and whose file name is a stem
  followed by \<open>.png\<close>, where the last path component of the stem has a character other
  than the dot, is accepted when the loop reaches it (the candidates before it are all
  accepted): its whole content is written under the generated identifier followed by
  \<open>.png\<close>, whatever follows in the batch.
\<close>

theorem save_pictures_jpeg_named_png:
  assumes "list_all (accepted env) pre"
      and "detected env p = ascii ''image/jpeg''"
      and "filename p = stem @ ascii ''.png''"
      and "has_stem stem"
  shows "\<exists>ws. written (snd (save_pictures env (pre @ p # suf) w))
           = written w @ stored_files env (draws w) pre
             @ [(path_join (upload_folder env)
                   (uuid_str (uuid4_int (urandom env (draws w + length pre))) @ ascii ''.png''),
                 stream_data p)]
             @ ws"
proof -
  let ?name = "uuid_str (uuid4_int (urandom env (draws w + length pre))) @ ascii ''.png''"
  let ?w1 = "w\<lparr>draws := draws w + length pre,
               written := written w @ stored_files env (draws w) pre\<rparr>"
  let ?w2 = "?w1\<lparr>draws := Suc (draws ?w1),
               written := written ?w1 @ [(path_join (upload_folder env) ?name, stream_data p)]\<rparr>"
  have acc: "accepted env p"
    using assms(2) by (simp add: accepted_def allowed_mimes_def)
  have name: "stored_name env (draws ?w1) p = ?name"
    using assms(3,4) by (simp add: stored_name_def splitext_png)
  have "save_pictures env (pre @ p # suf) w
          = save_loop env (p # suf) ([] @ stored_names env (draws w) pre) ?w1"
    unfolding save_pictures_def using assms(1) by (rule save_loop_accepted_prefix)
  also have "\<dots> = save_loop env suf (([] @ stored_names env (draws w) pre) @ [?name]) ?w2"
    using acc name by (simp add: save_loop_accept)
  finally have run: "save_pictures env (pre @ p # suf) w
          = save_loop env suf (([] @ stored_names env (draws w) pre) @ [?name]) ?w2" .
  obtain ws where "written (snd (save_loop env suf
      (([] @ stored_names env (draws w) pre) @ [?name]) ?w2)) = written ?w2 @ ws"
    using save_loop_written_extends by blast
  with run have "written (snd (save_pictures env (pre @ p # suf) w))
           = written w @ stored_files env (draws w) pre
             @ [(path_join (upload_folder env) ?name, stream_data p)] @ ws"
    by simp
  then show ?thesis by blast
qed

text \<open>
  Claim C8, a run: a JPEG uploaded as \<open>holiday.png\<close>, after another JPEG and before a text
  file.
\<close>

theorem save_pictures_jpeg_named_png_witness:
  "list_all (accepted example_env) [upload ''a.jpg'' jpeg_bytes]
   \<and> detected example_env (upload ''holiday.png'' jpeg_bytes) = ascii ''image/jpeg''
   \<and> filename (upload ''holiday.png'' jpeg_bytes) = ascii ''holiday'' @ ascii ''.png''
   \<and> has_stem (ascii ''holiday'')
   \<and> (\<exists>ws. written (snd (save_pictures example_env
              ([upload ''a.jpg'' jpeg_bytes] @ upload ''holiday.png'' jpeg_bytes
                 # [upload ''notes.txt'' text_bytes]) world0))
           = [(ascii ''/srv/uploads/00000000-0000-4000-8000-000000000000.jpg'', jpeg_bytes),
              (ascii ''/srv/uploads/00000000-0000-4000-8000-000000000000.png'', jpeg_bytes)]
             @ ws)"
proof -
  have z: "list_all (accepted example_env) [upload ''a.jpg'' jpeg_bytes]"
    by simp
  have a: "detected example_env (upload ''holiday.png'' jpeg_bytes) = ascii ''image/jpeg''"
    by simp
  have b: "filename (upload ''holiday.png'' jpeg_bytes) = ascii ''holiday'' @ ascii ''.png''"
    by (simp add: ascii_def)
  have c: "has_stem (ascii ''holiday'')"
    by (simp add: has_stem_def ascii_def SEP_def EXTSEP_def)
  have e: "snd (splitext (ascii ''a.jpg'')) = ascii ''.jpg''"
    by (simp add: splitext_eval)
  have n: "ascii ''/srv/uploads/'' @ zero_uuid @ ascii ''.jpg''
       = ascii ''/srv/uploads/00000000-0000-4000-8000-000000000000.jpg''"
    "ascii ''/srv/uploads/'' @ zero_uuid @ ascii ''.png''
       = ascii ''/srv/uploads/00000000-0000-4000-8000-000000000000.png''"
    by (simp_all add: zero_uuid_def ascii_def)
  show ?thesis
    using z a b c
      save_pictures_jpeg_named_png [OF z a b c, of "[upload ''notes.txt'' text_bytes]" world0]
    by (simp add: example_stored_name example_join world0_def zero_uuid_eq e n)
qed

text \<open>The same for a batch of one candidate, with the value returned.\<close>

lemma save_pictures_single_jpeg_named_png:
  assumes "detected env p = ascii ''image/jpeg''"
      and "filename p = stem @ ascii ''.png''"
      and "has_stem stem"
  shows "save_pictures env [p] w =
           (Inr [uuid_str (uuid4_int (urandom env (draws w))) @ ascii ''.png''],
            w\<lparr>draws := draws w + 1,
              written := written w
                  @ [(path_join (upload_folder env)
                        (uuid_str (uuid4_int (urandom env (draws w))) @ ascii ''.png''),
                      stream_data p)]\<rparr>)"
proof -
  have "accepted env p"
    using assms(1) by (simp add: accepted_def allowed_mimes_def)
  then have "list_all (accepted env) [p]" by simp
  moreover have "stored_name env (draws w) p
      = uuid_str (uuid4_int (urandom env (draws w))) @ ascii ''.png''"
    using assms(2,3) by (simp add: stored_name_def splitext_png)
  ultimately show ?thesis
    by (simp add: save_pictures_def save_loop_all_accepted)
qed

text \<open>
  Claim C8 for every file name that ends in \<open>.png\<close> fails: a JPEG uploaded under the name
  \<open>.png\<close> is accepted, but \<open>splitext\<close> takes the whole name for the root of a dot file and
  the stored name is the bare identifier, with no extension.
\<close>

theorem save_pictures_dotfile_has_no_extension:
  "detected example_env (upload ''.png'' jpeg_bytes) = ascii ''image/jpeg''
   \<and> filename (upload ''.png'' jpeg_bytes) = ascii ''.png''
   \<and> fst (save_pictures example_env [upload ''.png'' jpeg_bytes] world0)
       = Inr [ascii ''00000000-0000-4000-8000-000000000000'']"
proof -
  have "snd (splitext (ascii ''.png'')) = []"
    by (simp add: splitext_eval)
  then have "fst (save_pictures example_env [upload ''.png'' jpeg_bytes] world0) = Inr [zero_uuid]"
    using save_loop_all_accepted [of example_env "[upload ''.png'' jpeg_bytes]" "[]" world0]
    by (simp add: save_pictures_def example_stored_name)
  then show ?thesis by (simp add: zero_uuid_def)
qed

section \<open>Properties of \<open>get_bot_response\<close>\<close>

subsection \<open>Removing the marker\<close>


lemma flag_length [simp]: "length no_search_flag = 6"
  by (simp add: no_search_flag_def)







subsection \<open>The requests sent and the results of the two calls\<close>

lemma snd_search_web:
  "snd (search_web env q sent)
     = sent @ (if not_set (SERPER_API_KEY env) then []
               else [SerperSearch (the (SERPER_API_KEY env)) q])"
  by (simp add: search_web_def Let_def split: sum.splits)

lemma snd_call_gemini:
  "snd (call_gemini env p sent)
     = sent @ (if not_set (GEMINI_API_KEY env) then []
               else [GeminiGenerate (the (GEMINI_API_KEY env)) p])"
  by (simp add: call_gemini_def Let_def split: sum.splits)

lemma snd_generation_prompt:
  "snd (generation_prompt env q sent)
     = sent @ (if py_in no_search_flag q \<or> not_set (SERPER_API_KEY env) then []
               else [SerperSearch (the (SERPER_API_KEY env)) q])"
proof (cases "py_in no_search_flag q")
  case True
  then show ?thesis
    by (simp add: generation_prompt_def get_bot_response_search_def)
next
  case False
  obtain r s where sw: "search_web env q sent = (r, s)" by (cases "search_web env q sent")
  then have "s = sent @ (if not_set (SERPER_API_KEY env) then []
               else [SerperSearch (the (SERPER_API_KEY env)) q])"
    using snd_search_web [of env q sent] by simp
  with False sw show ?thesis
    by (simp add: generation_prompt_def get_bot_response_search_def split: sum.splits)
qed

lemma search_failure_empty:
  assumes "\<not> not_set (SERPER_API_KEY env)"
      and "post env (SerperSearch (the (SERPER_API_KEY env)) q) = TransportFailure
           \<or> (\<exists>status body. post env (SerperSearch (the (SERPER_API_KEY env)) q)
                 = Response status body \<and> is_error_status status)"
  shows "search_web env q sent = (Inr (JArr []), sent @ [SerperSearch (the (SERPER_API_KEY env)) q])"
  using assms by (auto simp: search_web_def post_json_def and_then_def Let_def)

lemma call_gemini_caught:
  assumes "\<not> not_set (GEMINI_API_KEY env)"
      and "and_then (post_json env (GeminiGenerate (the (GEMINI_API_KEY env)) p)) extract_text
             = Inl e"
      and "e = RequestException \<or> e = KeyError \<or> e = IndexError"
  shows "call_gemini env p sent = (Inr JNull, sent @ [GeminiGenerate (the (GEMINI_API_KEY env)) p])"
  using assms by (auto simp: call_gemini_def Let_def)

lemma call_gemini_text:
  assumes "\<not> not_set (GEMINI_API_KEY env)"
      and "post env (GeminiGenerate (the (GEMINI_API_KEY env)) p) = Response status (Some j)"
      and "\<not> is_error_status status"
      and "extract_text j = Inr v"
  shows "call_gemini env p sent = (Inr v, sent @ [GeminiGenerate (the (GEMINI_API_KEY env)) p])"
  using assms by (simp add: call_gemini_def post_json_def and_then_def Let_def)

text \<open>
  The prompt that \<open>generation_prompt\<close> gives is the one that goes out: with the key set,
  the generation request carrying it is the last request of the call.
\<close>

lemma get_bot_response_sends_prompt:
  assumes "generation_prompt env q sent = (Inr prompt, sent')"
      and "\<not> not_set (GEMINI_API_KEY env)"
  shows "snd (get_bot_response env q sent)
           = sent' @ [GeminiGenerate (the (GEMINI_API_KEY env)) prompt]"
proof -
  obtain a s where cg: "call_gemini env prompt sent' = (a, s)"
    by (cases "call_gemini env prompt sent'")
  then have "s = sent' @ [GeminiGenerate (the (GEMINI_API_KEY env)) prompt]"
    using snd_call_gemini [of env prompt sent'] assms(2) by simp
  moreover have "snd (get_bot_response env q sent) = s"
    using assms(1) cg by (simp add: get_bot_response_def split: sum.splits json.splits)
  ultimately show ?thesis by simp
qed

lemma py_strip_empty_iff: "(py_strip s = []) = list_all py_isspace s"
proof -
  have "(dropWhile P xs = []) = list_all P xs" for P and xs :: pystr
    by (induction xs) auto
  moreover have "list_all py_isspace (dropWhile py_isspace s) = list_all py_isspace s"
    by (induction s) auto
  ultimately show ?thesis
    by (simp add: py_strip_def)
qed


subsection \<open>The prompts as templates\<close>









subsection \<open>The concrete instances\<close>

lemma example_chat_env_simps [simp]:
  "SERPER_API_KEY (example_chat_env sk gk so go) = sk"
  "GEMINI_API_KEY (example_chat_env sk gk so go) = gk"
  "post (example_chat_env sk gk so go) (SerperSearch k q) = so"
  "post (example_chat_env sk gk so go) (GeminiGenerate k p) = go"
  "str_of (example_chat_env sk gk so go) v = []"
  by (simp_all add: example_chat_env_def)

lemma not_set_simps [simp]:
  "not_set None" "not_set (Some k) = (k = [])"
  by (simp_all add: not_set_def)

lemma query_has_no_flag: "\<not> py_in no_search_flag (ascii ''pantai Bali'')"
  by (simp add: no_search_flag_def ascii_def)

lemma extract_text_reply [simp]: "extract_text (gemini_reply v) = Inr v"
  by (simp add: extract_text_def gemini_reply_def getitem_key_def getitem_0_def and_then_def)

lemma extract_text_empty_object: "extract_text (JObj []) = Inl KeyError"
  by (simp add: extract_text_def getitem_key_def and_then_def)

lemma generation_prompt_no_search_key:
  "\<not> py_in no_search_flag q \<Longrightarrow> not_set (SERPER_API_KEY env) \<Longrightarrow>
   generation_prompt env q sent = (Inr (direct_prompt q), sent)"
  by (simp add: generation_prompt_def get_bot_response_search_def search_web_def
      get_bot_response_prompt_def)

lemma strip_examples:
  "py_strip (ascii '' Halo! '') = ascii ''Halo!''"
  "py_strip (ascii '' '') = []"
  "py_strip (ascii ''Halo!'') = ascii ''Halo!''"
  "py_strip gemini_key_error = gemini_key_error"
  by (simp_all add: py_strip_def py_isspace_def ascii_def gemini_key_error_def)


text \<open>
  Two payloads of an unexpected shape. A search response that is a JSON array has no
  \<open>get\<close> method; a generation response whose \<open>candidates\<close> is \<open>null\<close> cannot be indexed.
  Neither exception is caught.
\<close>

lemma search_payload_not_object_raises:
  "get_bot_response
     (example_chat_env (Some (ascii ''s-key'')) (Some (ascii ''g-key''))
        (Response 200 (Some (JArr []))) TransportFailure)
     (ascii ''pantai Bali'') []
     = (Inl AttributeError, [SerperSearch (ascii ''s-key'') (ascii ''pantai Bali'')])"
  using query_has_no_flag
  by (simp add: get_bot_response_def generation_prompt_def get_bot_response_search_def
      search_web_def post_json_def is_error_status_def and_then_def dict_get_def)

lemma generation_payload_null_candidates_raises:
  "call_gemini
     (example_chat_env None (Some (ascii ''g-key'')) TransportFailure
        (Response 200 (Some (JObj [(ascii ''candidates'', JNull)]))))
     prompt []
     = (Inl TypeError, [GeminiGenerate (ascii ''g-key'') prompt])"
  by (simp add: call_gemini_def post_json_def is_error_status_def and_then_def extract_text_def
      getitem_key_def getitem_0_def)

subsection \<open>What the caller gets back\<close>

text \<open>
  Claim C2. With \<open>GEMINI_API_KEY\<close> not set, \<open>get_bot_response\<close> returns the message
  \<open>Error: Kunci API Gemini belum dikonfigurasi.\<close>, which is neither generated text nor
  the apology.
\<close>

theorem missing_gemini_key_returns_error_text:
  "get_bot_response
     (example_chat_env (Some (ascii ''s-key'')) None TransportFailure TransportFailure)
     (ascii ''pantai Bali'') []
     = (Inr (ascii ''Error: Kunci API Gemini belum dikonfigurasi.''),
        [SerperSearch (ascii ''s-key'') (ascii ''pantai Bali'')])
   \<and> ascii ''Error: Kunci API Gemini belum dikonfigurasi.'' \<noteq> apology"
proof -
  let ?env = "example_chat_env (Some (ascii ''s-key'')) None TransportFailure TransportFailure"
  have "search_web ?env (ascii ''pantai Bali'') []
          = (Inr (JArr []), [] @ [SerperSearch (the (SERPER_API_KEY ?env)) (ascii ''pantai Bali'')])"
    by (rule search_failure_empty) simp_all
  then have "generation_prompt ?env (ascii ''pantai Bali'') []
          = (Inr (direct_prompt (ascii ''pantai Bali'')),
             [SerperSearch (ascii ''s-key'') (ascii ''pantai Bali'')])"
    using query_has_no_flag
    by (simp add: generation_prompt_def get_bot_response_search_def get_bot_response_prompt_def)
  then have "get_bot_response ?env (ascii ''pantai Bali'') []
     = (Inr gemini_key_error, [SerperSearch (ascii ''s-key'') (ascii ''pantai Bali'')])"
    by (simp add: get_bot_response_def call_gemini_def strip_examples)
  moreover have "ascii ''Error: Kunci API Gemini belum dikonfigurasi.'' \<noteq> apology"
    by (simp add: apology_def ascii_def)
  ultimately show ?thesis by (simp add: gemini_key_error_def)
qed

subsection \<open>When a search request is sent\<close>

text \<open>
  Claim C4. The search requests that a call adds to the requests sent: none when the
  query contains the marker, none when \<open>SERPER_API_KEY\<close> is not set, and otherwise exactly
  one, with the configured key and the unmodified query.
\<close>

theorem get_bot_response_search_requests:
  "filter is_search (snd (get_bot_response env q sent))
     = filter is_search sent
       @ (if py_in no_search_flag q \<or> not_set (SERPER_API_KEY env) then []
          else [SerperSearch (the (SERPER_API_KEY env)) q])"
proof -
  obtain r s where gp: "generation_prompt env q sent = (r, s)"
    by (cases "generation_prompt env q sent")
  then have s: "s = sent @ (if py_in no_search_flag q \<or> not_set (SERPER_API_KEY env) then []
               else [SerperSearch (the (SERPER_API_KEY env)) q])"
    using snd_generation_prompt [of env q sent] by simp
  show ?thesis
  proof (cases r)
    case (Inl e)
    with gp s show ?thesis by (simp add: get_bot_response_def)
  next
    case (Inr prompt)
    obtain a s' where cg: "call_gemini env prompt s = (a, s')"
      by (cases "call_gemini env prompt s")
    then have "s' = s @ (if not_set (GEMINI_API_KEY env) then []
               else [GeminiGenerate (the (GEMINI_API_KEY env)) prompt])"
      using snd_call_gemini [of env prompt s] by simp
    then have "filter is_search s' = filter is_search s" by simp
    moreover have "snd (get_bot_response env q sent) = s'"
      using gp Inr cg by (simp add: get_bot_response_def split: sum.splits json.splits)
    ultimately show ?thesis using s by simp
  qed
qed

text \<open>Claim C4, a run: both keys set, a query without the marker.\<close>

theorem get_bot_response_search_requests_witness:
  "filter is_search
     (snd (get_bot_response
       (example_chat_env (Some (ascii ''s-key'')) (Some (ascii ''g-key'')) TransportFailure
          TransportFailure)
       (ascii ''pantai Bali'') []))
     = [SerperSearch (ascii ''s-key'') (ascii ''pantai Bali'')]"
  using query_has_no_flag
    get_bot_response_search_requests [of "example_chat_env (Some (ascii ''s-key'')) (Some (ascii ''g-key'')) TransportFailure
          TransportFailure" "ascii ''pantai Bali''" "[]"]
  by simp

text \<open>
  Claim C4 as stated fails: with \<open>SERPER_API_KEY\<close> not set, a query without the marker is
  answered with the generation request as the only request sent.
\<close>

theorem no_search_request_without_serper_key:
  "\<not> py_in no_search_flag (ascii ''pantai Bali'')
   \<and> get_bot_response
       (example_chat_env None (Some (ascii ''g-key'')) TransportFailure
          (Response 200 (Some (gemini_reply (JStr (ascii ''Halo!''))))))
       (ascii ''pantai Bali'') []
       = (Inr (ascii ''Halo!''),
          [GeminiGenerate (ascii ''g-key'') (direct_prompt (ascii ''pantai Bali''))])"
proof -
  let ?env = "example_chat_env None (Some (ascii ''g-key'')) TransportFailure
          (Response 200 (Some (gemini_reply (JStr (ascii ''Halo!'')))))"
  have "generation_prompt ?env (ascii ''pantai Bali'') []
          = (Inr (direct_prompt (ascii ''pantai Bali'')), [])"
    using query_has_no_flag by (simp add: generation_prompt_no_search_key)
  moreover have "call_gemini ?env (direct_prompt (ascii ''pantai Bali'')) []
          = (Inr (JStr (ascii ''Halo!'')),
             [] @ [GeminiGenerate (the (GEMINI_API_KEY ?env)) (direct_prompt (ascii ''pantai Bali''))])"
    by (rule call_gemini_text [where status = 200 and j = "gemini_reply (JStr (ascii ''Halo!''))"])
      (simp_all add: is_error_status_def)
  ultimately show ?thesis
    using query_has_no_flag by (simp add: get_bot_response_def strip_examples)
qed

subsection \<open>Failure of the generation call\<close>

text \<open>
  What \<open>call_gemini\<close> catches. When \<open>get_bot_response\<close> gets as far as the generation
  call, the key is set, and the request fails in transport, is answered with a status from
  400 to 599 or with a body that is not JSON, or is answered with JSON where the expression
  \<open>candidates[0].content.parts[0].text\<close> raises \<open>KeyError\<close> or \<open>IndexError\<close>, the result
  is the apology.
\<close>

lemma caught_generation_failure_gives_apology:
  assumes "generation_prompt env q sent = (Inr prompt, sent')"
      and "\<not> not_set (GEMINI_API_KEY env)"
      and "post env (GeminiGenerate (the (GEMINI_API_KEY env)) prompt) = TransportFailure
           \<or> (\<exists>status body. post env (GeminiGenerate (the (GEMINI_API_KEY env)) prompt)
                  = Response status body \<and> is_error_status status)
           \<or> (\<exists>status. post env (GeminiGenerate (the (GEMINI_API_KEY env)) prompt)
                  = Response status None)
           \<or> (\<exists>status j. post env (GeminiGenerate (the (GEMINI_API_KEY env)) prompt)
                  = Response status (Some j)
                \<and> (extract_text j = Inl KeyError \<or> extract_text j = Inl IndexError))"
  shows "get_bot_response env q sent
           = (Inr apology, sent' @ [GeminiGenerate (the (GEMINI_API_KEY env)) prompt])"
proof -
  let ?req = "GeminiGenerate (the (GEMINI_API_KEY env)) prompt"
  have "\<exists>e. and_then (post_json env ?req) extract_text = Inl e
          \<and> (e = RequestException \<or> e = KeyError \<or> e = IndexError)"
    using assms(3) by (auto simp: post_json_def and_then_def)
  then have "call_gemini env prompt sent' = (Inr JNull, sent' @ [?req])"
    using assms(2) call_gemini_caught by blast
  with assms(1) show ?thesis
    by (simp add: get_bot_response_def)
qed

text \<open>A run: the generation response is the empty JSON object.\<close>

lemma caught_generation_failure_gives_apology_run:
  "generation_prompt
     (example_chat_env None (Some (ascii ''g-key'')) TransportFailure (Response 200 (Some (JObj []))))
     (ascii ''pantai Bali'') []
     = (Inr (direct_prompt (ascii ''pantai Bali'')), [])
   \<and> \<not> not_set (GEMINI_API_KEY
       (example_chat_env None (Some (ascii ''g-key'')) TransportFailure
          (Response 200 (Some (JObj [])))))
   \<and> extract_text (JObj []) = Inl KeyError
   \<and> get_bot_response
       (example_chat_env None (Some (ascii ''g-key'')) TransportFailure
          (Response 200 (Some (JObj []))))
       (ascii ''pantai Bali'') []
       = (Inr apology, [GeminiGenerate (ascii ''g-key'') (direct_prompt (ascii ''pantai Bali''))])"
proof -
  let ?env = "example_chat_env None (Some (ascii ''g-key'')) TransportFailure
          (Response 200 (Some (JObj [])))"
  let ?q = "ascii ''pantai Bali''"
  have a: "generation_prompt ?env ?q [] = (Inr (direct_prompt ?q), [])"
    using query_has_no_flag by (simp add: generation_prompt_no_search_key)
  have b: "\<not> not_set (GEMINI_API_KEY ?env)"
    by simp
  have c: "post ?env (GeminiGenerate (the (GEMINI_API_KEY ?env)) (direct_prompt ?q))
             = TransportFailure
           \<or> (\<exists>status body.
                post ?env (GeminiGenerate (the (GEMINI_API_KEY ?env)) (direct_prompt ?q))
                  = Response status body \<and> is_error_status status)
           \<or> (\<exists>status. post ?env (GeminiGenerate (the (GEMINI_API_KEY ?env)) (direct_prompt ?q))
                  = Response status None)
           \<or> (\<exists>status j. post ?env (GeminiGenerate (the (GEMINI_API_KEY ?env)) (direct_prompt ?q))
                  = Response status (Some j)
                \<and> (extract_text j = Inl KeyError \<or> extract_text j = Inl IndexError))"
    by (simp add: extract_text_empty_object)
  show ?thesis
    using a b caught_generation_failure_gives_apology [OF a b c] extract_text_empty_object by simp
qed

text \<open>
  Claim C5. A generation response that lacks the expected text is to give the apology.
  The response \<open>{"candidates": null}\<close> has no \<open>candidates[0].content.parts[0].text\<close>, but
  indexing \<open>None\<close> raises \<open>TypeError\<close>, which \<open>call_gemini\<close> does not catch: the
  exception leaves \<open>get_bot_response\<close> and no string is returned.
\<close>

theorem null_candidates_escapes_as_type_error:
  "extract_text (JObj [(ascii ''candidates'', JNull)]) = Inl TypeError
   \<and> get_bot_response
       (example_chat_env None (Some (ascii ''g-key'')) TransportFailure
          (Response 200 (Some (JObj [(ascii ''candidates'', JNull)]))))
       (ascii ''pantai Bali'') []
       = (Inl TypeError, [GeminiGenerate (ascii ''g-key'') (direct_prompt (ascii ''pantai Bali''))])"
proof -
  let ?env = "example_chat_env None (Some (ascii ''g-key'')) TransportFailure
          (Response 200 (Some (JObj [(ascii ''candidates'', JNull)])))"
  have "generation_prompt ?env (ascii ''pantai Bali'') []
          = (Inr (direct_prompt (ascii ''pantai Bali'')), [])"
    using query_has_no_flag by (simp add: generation_prompt_no_search_key)
  moreover have "extract_text (JObj [(ascii ''candidates'', JNull)]) = Inl TypeError"
    by (simp add: extract_text_def getitem_key_def getitem_0_def and_then_def)
  ultimately show ?thesis
    by (simp add: get_bot_response_def generation_payload_null_candidates_raises)
qed

subsection \<open>Failure of the search call\<close>

text \<open>
  Claim C6. For a query without the marker, when the search request fails in transport or
  is answered with a status from 400 to 599, the generation request is sent with the
  direct prompt for the query; when that request is answered with a text, the result is
  the text with the surrounding whitespace removed, which is empty exactly when the text
  consists of whitespace only.
\<close>

theorem search_failure_degrades_to_direct:
  assumes "\<not> py_in no_search_flag q"
      and "\<not> not_set (SERPER_API_KEY env)"
      and "post env (SerperSearch (the (SERPER_API_KEY env)) q) = TransportFailure
           \<or> (\<exists>status body. post env (SerperSearch (the (SERPER_API_KEY env)) q)
                 = Response status body \<and> is_error_status status)"
      and "\<not> not_set (GEMINI_API_KEY env)"
      and "post env (GeminiGenerate (the (GEMINI_API_KEY env)) (direct_prompt q))
             = Response status' (Some j)"
      and "\<not> is_error_status status'"
      and "extract_text j = Inr (JStr text)"
  shows "get_bot_response env q sent
           = (Inr (py_strip text),
              sent @ [SerperSearch (the (SERPER_API_KEY env)) q,
                      GeminiGenerate (the (GEMINI_API_KEY env)) (direct_prompt q)])
         \<and> (py_strip text = []) = list_all py_isspace text"
proof -
  have "search_web env q sent
          = (Inr (JArr []), sent @ [SerperSearch (the (SERPER_API_KEY env)) q])"
    using assms(2,3) by (rule search_failure_empty)
  with assms(1) have "generation_prompt env q sent
          = (Inr (direct_prompt q), sent @ [SerperSearch (the (SERPER_API_KEY env)) q])"
    by (simp add: generation_prompt_def get_bot_response_search_def get_bot_response_prompt_def)
  moreover have "call_gemini env (direct_prompt q) (sent @ [SerperSearch (the (SERPER_API_KEY env)) q])
          = (Inr (JStr text), (sent @ [SerperSearch (the (SERPER_API_KEY env)) q])
               @ [GeminiGenerate (the (GEMINI_API_KEY env)) (direct_prompt q)])"
    using assms(4,5,6,7) by (rule call_gemini_text)
  ultimately show ?thesis
    by (simp add: get_bot_response_def py_strip_empty_iff)
qed

text \<open>Claim C6, a run: the search fails in transport, the generated text is \<open>Halo!\<close>.\<close>

theorem search_failure_degrades_to_direct_witness:
  "\<not> py_in no_search_flag (ascii ''pantai Bali'')
   \<and> post (example_chat_env (Some (ascii ''s-key'')) (Some (ascii ''g-key'')) TransportFailure
        (Response 200 (Some (gemini_reply (JStr (ascii '' Halo! ''))))))
       (SerperSearch (ascii ''s-key'') (ascii ''pantai Bali'')) = TransportFailure
   \<and> get_bot_response
       (example_chat_env (Some (ascii ''s-key'')) (Some (ascii ''g-key'')) TransportFailure
          (Response 200 (Some (gemini_reply (JStr (ascii '' Halo! ''))))))
       (ascii ''pantai Bali'') []
       = (Inr (ascii ''Halo!''),
          [SerperSearch (ascii ''s-key'') (ascii ''pantai Bali''),
           GeminiGenerate (ascii ''g-key'') (direct_prompt (ascii ''pantai Bali''))])"
proof -
  let ?env = "example_chat_env (Some (ascii ''s-key'')) (Some (ascii ''g-key'')) TransportFailure
          (Response 200 (Some (gemini_reply (JStr (ascii '' Halo! '')))))"
  let ?q = "ascii ''pantai Bali''"
  have a: "\<not> py_in no_search_flag ?q" by (rule query_has_no_flag)
  have b: "\<not> not_set (SERPER_API_KEY ?env)" by simp
  have c: "post ?env (SerperSearch (the (SERPER_API_KEY ?env)) ?q) = TransportFailure
           \<or> (\<exists>status body. post ?env (SerperSearch (the (SERPER_API_KEY ?env)) ?q)
                 = Response status body \<and> is_error_status status)"
    by simp
  have d: "\<not> not_set (GEMINI_API_KEY ?env)" by simp
  have e: "post ?env (GeminiGenerate (the (GEMINI_API_KEY ?env)) (direct_prompt ?q))
             = Response 200 (Some (gemini_reply (JStr (ascii '' Halo! ''))))"
    by simp
  have f: "\<not> is_error_status 200" by (simp add: is_error_status_def)
  have g: "extract_text (gemini_reply (JStr (ascii '' Halo! ''))) = Inr (JStr (ascii '' Halo! ''))"
    by simp
  show ?thesis
    using a search_failure_degrades_to_direct [OF a b c d e f g, of "[]"] by (simp add: strip_examples)
qed

text \<open>
  Claim C6 as stated fails: the search fails in transport, the generation call succeeds
  with a text that is one space, and the result is the empty string.
\<close>

theorem blank_generation_gives_empty_answer:
  "\<not> py_in no_search_flag (ascii ''pantai Bali'')
   \<and> post (example_chat_env (Some (ascii ''s-key'')) (Some (ascii ''g-key'')) TransportFailure
        (Response 200 (Some (gemini_reply (JStr (ascii '' ''))))))
       (SerperSearch (ascii ''s-key'') (ascii ''pantai Bali'')) = TransportFailure
   \<and> call_gemini
       (example_chat_env (Some (ascii ''s-key'')) (Some (ascii ''g-key'')) TransportFailure
          (Response 200 (Some (gemini_reply (JStr (ascii '' ''))))))
       (direct_prompt (ascii ''pantai Bali'')) []
       = (Inr (JStr (ascii '' '')),
          [GeminiGenerate (ascii ''g-key'') (direct_prompt (ascii ''pantai Bali''))])
   \<and> get_bot_response
       (example_chat_env (Some (ascii ''s-key'')) (Some (ascii ''g-key'')) TransportFailure
          (Response 200 (Some (gemini_reply (JStr (ascii '' ''))))))
       (ascii ''pantai Bali'') []
       = (Inr [],
          [SerperSearch (ascii ''s-key'') (ascii ''pantai Bali''),
           GeminiGenerate (ascii ''g-key'') (direct_prompt (ascii ''pantai Bali''))])"
proof -
  let ?env = "example_chat_env (Some (ascii ''s-key'')) (Some (ascii ''g-key'')) TransportFailure
          (Response 200 (Some (gemini_reply (JStr (ascii '' '')))))"
  let ?q = "ascii ''pantai Bali''"
  have s: "search_web ?env ?q [] = (Inr (JArr []), [] @ [SerperSearch (the (SERPER_API_KEY ?env)) ?q])"
    by (rule search_failure_empty) simp_all
  then have p: "generation_prompt ?env ?q []
          = (Inr (direct_prompt ?q), [SerperSearch (ascii ''s-key'') ?q])"
    using query_has_no_flag
    by (simp add: generation_prompt_def get_bot_response_search_def get_bot_response_prompt_def)
  have g: "call_gemini ?env (direct_prompt ?q) sent
          = (Inr (JStr (ascii '' '')),
             sent @ [GeminiGenerate (the (GEMINI_API_KEY ?env)) (direct_prompt ?q)])" for sent
    by (rule call_gemini_text [where status = 200 and j = "gemini_reply (JStr (ascii '' ''))"])
      (simp_all add: is_error_status_def)
  show ?thesis
    using query_has_no_flag p g by (simp add: get_bot_response_def strip_examples)
qed

subsection \<open>The results in the prompt\<close>



subsection \<open>The query in the prompt\<close>



text \<open>
  The pieces can form the marker again where they meet: the text in the prompt is free of
  the occurrences that the query had, not of every occurrence.
\<close>

lemma marker_can_form_again:
  "py_strip (py_replace no_search_flag [] (ascii ''./s./skipkip'')) = ascii ''./skip''"
  by (simp add: py_replace_def no_search_flag_def py_strip_def py_isspace_def ascii_def)

end
